theory Spec2Isabelle
  imports Main "HOL-Library.Word"
begin

section \<open>The notebook's environment\<close>

text \<open>
  The program is the notebook \<^verbatim>\<open>working-with-foreign-functions.ipynb\<close>: a sequence of
  cells that allocate a ctypes buffer, fill it from a file through \<^verbatim>\<open>fopen\<close>,
  \<^verbatim>\<open>fread\<close> and \<^verbatim>\<open>fclose\<close> of the C library, print its address, and clear it with
  \<^verbatim>\<open>memset\<close>; a last cell fills a second, separate buffer with \<^verbatim>\<open>randombytes\<close>.

  The notebook has no functions of its own: every cell is straight-line code over the
  interpreter's global variables. Each code cell is embedded as a function on the state of
  the running kernel, and the library functions the cells call (ctypes, the C library,
  libsodium) are modelled by their documented behaviour.

  The notebook writes the buffer size as the literal 32 in every place
  (\<^verbatim>\<open>token_bytes(32)\<close>, \<^verbatim>\<open>create_string_buffer(32)\<close>, \<^verbatim>\<open>fread(data, 32, 1, fp)\<close>,
  \<^verbatim>\<open>memset(data, 0, 32)\<close>). That one literal is the parameter \<open>n\<close> of the cells below;
  the notebook is their instance at \<open>n = 32\<close>.

  Left out are the cell that finds and loads the C library for the platform and the two
  cells that time a million calls of \<^verbatim>\<open>randombytes\<close>.
\<close>

type_synonym byte = "8 word"

text \<open>Addresses and \<^verbatim>\<open>FILE*\<close> handles are integers; 0 is the null pointer.\<close>

type_synonym addr = nat

datatype error =
    NameError string   \<comment> \<open>Python: a global variable read before any cell has bound it\<close>
  | ArgumentError      \<comment> \<open>ctypes: an argument that does not convert to the declared C type\<close>
  | OverflowError      \<comment> \<open>Python: an array length that does not fit a signed 64-bit index\<close>
  | MemoryError        \<comment> \<open>Python: the allocator returned the null pointer\<close>
  | NativeFault        \<comment> \<open>undefined behaviour inside a C function (null stream, write past a buffer)\<close>

text \<open>
  What the global \<^verbatim>\<open>file\<close> can hold: the Python file object the writing cell binds it to
  (\<^verbatim>\<open>with open(...) as file\<close>), or the \<^verbatim>\<open>c_char_p\<close> the next cell binds it to.
\<close>

datatype pyvalue = FileObject | CharP string

text \<open>A foreign function invocation, with the arguments as the C function receives them.\<close>

datatype call =
    Fopen string string
  | Fread addr nat nat addr
  | Fclose addr
  | Memset addr int nat
  | Randombytes addr nat

text \<open>A ctypes or cffi character array: where it lives and what it holds.\<close>

record cbuf =
  base :: addr
  cells :: "byte list"

text \<open>
  The state of the kernel: the file system, the open C streams (each with the bytes not
  yet read), the environment's answers (the address the allocator returns for its k-th
  request, the status \<^verbatim>\<open>fclose\<close> returns), the log of foreign calls made so far, and the
  global variables \<^verbatim>\<open>file\<close>, \<^verbatim>\<open>mode\<close>, \<^verbatim>\<open>data\<close>, \<^verbatim>\<open>fp\<close> and \<^verbatim>\<open>bs\<close> (\<open>None\<close>
  while unbound).

  The cells that load the C library, bind \<^verbatim>\<open>fopen\<close>, \<^verbatim>\<open>fread\<close> and \<^verbatim>\<open>fclose\<close> and
  declare their \<^verbatim>\<open>argtypes\<close> and \<^verbatim>\<open>restype\<close> are taken to have run: no later cell
  rebinds what they bind. The names a cell binds with an \<^verbatim>\<open>import\<close> statement and the
  prototype the clearing cell assigns to \<^verbatim>\<open>libc.memset.argtypes\<close> are not part of the
  state.
\<close>

record kernel =
  files :: "string \<rightharpoonup> byte list"
  streams :: "addr \<rightharpoonup> byte list"
  opened :: nat
  allocator :: "nat \<Rightarrow> addr"
  n_allocs :: nat
  fclose_rc :: int
  calls :: "call list"
  file_var :: "pyvalue option"
  mode_var :: "string option"
  data :: "cbuf option"
  fp :: "addr option"
  bs :: "cbuf option"

type_synonym outcome = "(error + string option) \<times> kernel"

subsection \<open>Python built-ins\<close>

definition hex_digit :: "nat \<Rightarrow> char" where
  "hex_digit d = ''0123456789abcdef'' ! d"

text \<open>\<^verbatim>\<open>bytes.hex()\<close>: two lower-case digits per byte.\<close>

definition hex_byte :: "byte \<Rightarrow> string" where
  "hex_byte b = [hex_digit (unat b div 16), hex_digit (unat b mod 16)]"

definition bytes_hex :: "byte list \<Rightarrow> string" where
  "bytes_hex xs = concat (map hex_byte xs)"

function hex_digits :: "nat \<Rightarrow> string" where
  "hex_digits k = (if k < 16 then [hex_digit k] else hex_digits (k div 16) @ [hex_digit (k mod 16)])"
  by pat_completeness auto
termination
  by (relation "measure id") auto

text \<open>\<^verbatim>\<open>hex(k)\<close> for a non-negative integer.\<close>

definition py_hex :: "nat \<Rightarrow> string" where
  "py_hex k = ''0x'' @ hex_digits k"

subsection \<open>Library functions\<close>

text \<open>
  The allocation inside \<^verbatim>\<open>ctypes.create_string_buffer\<close> and
  \<^verbatim>\<open>ffi.new("unsigned char[]", ...)\<close>: one request to the allocator, then a fresh array of
  \<open>n\<close> zero bytes at the address it returned, or \<^verbatim>\<open>MemoryError\<close> when it returned null.
\<close>

definition new_array :: "nat \<Rightarrow> kernel \<Rightarrow> (error + cbuf) \<times> kernel" where
  "new_array n w =
     (let a = allocator w (n_allocs w);
          w' = w\<lparr>n_allocs := Suc (n_allocs w)\<rparr>
      in if a = 0 then (Inl MemoryError, w')
         else (Inr \<lparr>base = a, cells = replicate n 0\<rparr>, w'))"

text \<open>
  \<^verbatim>\<open>ctypes.create_string_buffer(n)\<close> builds the array type \<^verbatim>\<open>c_char * n\<close> first; a length
  of \<open>2^63\<close> or more does not fit the index type and raises \<^verbatim>\<open>OverflowError\<close> before
  anything is allocated.
\<close>

definition create_string_buffer :: "nat \<Rightarrow> kernel \<Rightarrow> (error + cbuf) \<times> kernel" where
  "create_string_buffer n w =
     (if 2 ^ 63 \<le> n then (Inl OverflowError, w) else new_array n w)"

text \<open>
  \<^verbatim>\<open>fopen(path, mode)\<close>. The first character of the mode selects reading (the file must
  exist), writing (the file is created or truncated) or appending (the file is created when
  missing); any other mode fails. The result is the new stream's handle, or null. A stream
  that cannot be read (\<^verbatim>\<open>w\<close>, \<^verbatim>\<open>a\<close> without \<^verbatim>\<open>+\<close>) delivers no bytes to \<^verbatim>\<open>fread\<close>, so it
  is held as a stream with nothing left to read.
\<close>

definition libc_fopen :: "string \<Rightarrow> string \<Rightarrow> kernel \<Rightarrow> addr \<times> kernel" where
  "libc_fopen path m w =
     (let w0 = w\<lparr>calls := calls w @ [Fopen path m]\<rparr>;
          h = Suc (opened w);
          start = (\<lambda>fs unread. (h, w0\<lparr>files := fs, streams := (streams w)(h \<mapsto> unread), opened := h\<rparr>))
      in case m of
           [] \<Rightarrow> (0, w0)
         | c # rest \<Rightarrow>
             if c = CHR ''r'' then
               (case files w path of None \<Rightarrow> (0, w0) | Some content \<Rightarrow> start (files w) content)
             else if c = CHR ''w'' then start ((files w)(path \<mapsto> [])) []
             else if c = CHR ''a'' then
               (case files w path of
                  None \<Rightarrow> start ((files w)(path \<mapsto> [])) []
                | Some content \<Rightarrow> start (files w) (if CHR ''+'' \<in> set rest then content else []))
             else (0, w0))"

text \<open>
  \<^verbatim>\<open>fread(ptr, size, nmemb, stream)\<close> on the buffer \<open>ptr\<close> points to, with \<open>sz\<close> for
  \<^verbatim>\<open>size\<close>: up to
  \<open>sz * nmemb\<close> bytes move from the stream to the front of the buffer, the bytes of an
  incomplete last element included (as the GNU C library does), and the rest of the buffer
  is left as it was. The result is the number of complete elements read. A null or closed
  stream, and a write past the end of the buffer, are undefined behaviour.
\<close>

definition libc_fread :: "cbuf \<Rightarrow> nat \<Rightarrow> nat \<Rightarrow> addr \<Rightarrow> kernel \<Rightarrow> (error + cbuf \<times> nat) \<times> kernel" where
  "libc_fread buf sz nmemb h w =
     (let w0 = w\<lparr>calls := calls w @ [Fread (base buf) sz nmemb h]\<rparr>
      in case (if h = 0 then None else streams w h) of
           None \<Rightarrow> (Inl NativeFault, w0)
         | Some unread \<Rightarrow>
             (let got = take (sz * nmemb) unread
              in if length (cells buf) < length got then (Inl NativeFault, w0)
                 else (Inr (buf\<lparr>cells := got @ drop (length got) (cells buf)\<rparr>,
                            if sz = 0 then 0 else length got div sz),
                       w0\<lparr>streams := (streams w)(h \<mapsto> drop (sz * nmemb) unread)\<rparr>)))"

text \<open>
  \<^verbatim>\<open>fclose(stream)\<close>: the stream is gone afterwards whatever the status returned (0, or
  \<^verbatim>\<open>EOF\<close> when closing failed).
\<close>

definition libc_fclose :: "addr \<Rightarrow> kernel \<Rightarrow> (error + int) \<times> kernel" where
  "libc_fclose h w =
     (let w0 = w\<lparr>calls := calls w @ [Fclose h]\<rparr>
      in case (if h = 0 then None else streams w h) of
           None \<Rightarrow> (Inl NativeFault, w0)
         | Some unread \<Rightarrow> (Inr (fclose_rc w), w0\<lparr>streams := (streams w)(h := None)\<rparr>))"

text \<open>\<^verbatim>\<open>memset(ptr, c, n)\<close>: the first \<open>n\<close> bytes become \<open>c\<close> converted to \<^verbatim>\<open>unsigned char\<close>.\<close>

definition libc_memset :: "cbuf \<Rightarrow> int \<Rightarrow> nat \<Rightarrow> kernel \<Rightarrow> (error + cbuf) \<times> kernel" where
  "libc_memset buf c n w =
     (let w0 = w\<lparr>calls := calls w @ [Memset (base buf) c n]\<rparr>
      in if length (cells buf) < n then (Inl NativeFault, w0)
         else (Inr (buf\<lparr>cells := replicate n (of_int c) @ drop n (cells buf)\<rparr>), w0))"

text \<open>
  \<^verbatim>\<open>randombytes(buf, n)\<close>: the first \<open>n\<close> bytes become the generator's next \<open>n\<close> bytes;
  \<open>rnd i\<close> is the i-th byte the generator delivers.
\<close>

definition sodium_randombytes :: "(nat \<Rightarrow> byte) \<Rightarrow> cbuf \<Rightarrow> nat \<Rightarrow> kernel \<Rightarrow> (error + cbuf) \<times> kernel" where
  "sodium_randombytes rnd buf n w =
     (let w0 = w\<lparr>calls := calls w @ [Randombytes (base buf) n]\<rparr>
      in if length (cells buf) < n then (Inl NativeFault, w0)
         else (Inr (buf\<lparr>cells := map rnd [0..<n] @ drop n (cells buf)\<rparr>), w0))"

section \<open>The cells\<close>

text \<open>
  \<^verbatim>\<open>with open("data.txt", "wb") as file: file.write(token_bytes(32))\<close>, where \<open>tok\<close> is
  the value \<^verbatim>\<open>token_bytes\<close> returned. The statement leaves the global \<^verbatim>\<open>file\<close> bound to
  the file object.
\<close>

definition write_cell :: "byte list \<Rightarrow> kernel \<Rightarrow> kernel" where
  "write_cell tok w = w\<lparr>files := (files w)(''data.txt'' \<mapsto> tok), file_var := Some FileObject\<rparr>"

text \<open>
  \<^verbatim>\<open>file = c_char_p("data.txt".encode("ascii"))\<close> and
  \<^verbatim>\<open>mode = c_char_p("rb".encode("ascii"))\<close>, with the two strings the cell encodes.
\<close>

definition file_p :: string where
  "file_p = ''data.txt''"

definition mode_p :: string where
  "mode_p = ''rb''"

definition bind_cell :: "kernel \<Rightarrow> kernel" where
  "bind_cell w = w\<lparr>file_var := Some (CharP file_p), mode_var := Some mode_p\<rparr>"

text \<open>\<^verbatim>\<open>data = ctypes.create_string_buffer(32)\<close>\<close>

definition allocate_cell :: "nat \<Rightarrow> kernel \<Rightarrow> outcome" where
  "allocate_cell n w =
     (case create_string_buffer n w of
        (Inl e, w1) \<Rightarrow> (Inl e, w1)
      | (Inr b, w1) \<Rightarrow> (Inr None, w1\<lparr>data := Some b\<rparr>))"

text \<open>
  \<^verbatim>\<open>fp = fopen(file, mode)\<close>, \<^verbatim>\<open>fread(data, 32, 1, fp)\<close>, \<^verbatim>\<open>fclose(fp)\<close>,
  \<^verbatim>\<open>bytes(data).hex()\<close>. The names \<^verbatim>\<open>file\<close> and \<^verbatim>\<open>mode\<close> are looked up, in that
  order, and converted to \<^verbatim>\<open>c_char_p\<close> before \<^verbatim>\<open>fopen\<close> is entered: a file object does
  not convert. \<^verbatim>\<open>fopen\<close> has run by the time the name \<^verbatim>\<open>data\<close> is looked up. The
  results of \<^verbatim>\<open>fread\<close> and \<^verbatim>\<open>fclose\<close> are not bound to anything.
\<close>

definition load_cell :: "nat \<Rightarrow> kernel \<Rightarrow> outcome" where
  "load_cell n w =
     (case file_var w of
        None \<Rightarrow> (Inl (NameError ''file''), w)
      | Some f \<Rightarrow>
     (case mode_var w of
        None \<Rightarrow> (Inl (NameError ''mode''), w)
      | Some m \<Rightarrow>
     (case f of
        FileObject \<Rightarrow> (Inl ArgumentError, w)
      | CharP path \<Rightarrow>
     (case libc_fopen path m w of
        (h, w1) \<Rightarrow>
          (let w2 = w1\<lparr>fp := Some h\<rparr>
           in case data w2 of
                None \<Rightarrow> (Inl (NameError ''data''), w2)
              | Some d \<Rightarrow>
                  (case libc_fread d n 1 h w2 of
                     (Inl e, w3) \<Rightarrow> (Inl e, w3)
                   | (Inr (d', count), w3) \<Rightarrow>
                       (let w4 = w3\<lparr>data := Some d'\<rparr>
                        in case libc_fclose h w4 of
                             (Inl e, w5) \<Rightarrow> (Inl e, w5)
                           | (Inr status, w5) \<Rightarrow> (Inr (Some (bytes_hex (cells d'))), w5))))))))"

text \<open>\<^verbatim>\<open>hex(addressof(data))\<close>\<close>

definition address_cell :: "kernel \<Rightarrow> outcome" where
  "address_cell w =
     (case data w of
        None \<Rightarrow> (Inl (NameError ''data''), w)
      | Some d \<Rightarrow> (Inr (Some (py_hex (base d))), w))"

text \<open>\<^verbatim>\<open>libc.memset(data, 0, 32)\<close>, \<^verbatim>\<open>bytes(data).hex()\<close>\<close>

definition clear_cell :: "nat \<Rightarrow> kernel \<Rightarrow> outcome" where
  "clear_cell n w =
     (case data w of
        None \<Rightarrow> (Inl (NameError ''data''), w)
      | Some d \<Rightarrow>
          (case libc_memset d 0 n w of
             (Inl e, w1) \<Rightarrow> (Inl e, w1)
           | (Inr d', w1) \<Rightarrow> (Inr (Some (bytes_hex (cells d'))), w1\<lparr>data := Some d'\<rparr>)))"

text \<open>
  \<^verbatim>\<open>bs = ffi.new("unsigned char[]", 8)\<close>, \<^verbatim>\<open>lib.randombytes(bs, 8)\<close>,
  \<^verbatim>\<open>bytes(bs).hex()\<close>
\<close>

definition randombytes_cell :: "(nat \<Rightarrow> byte) \<Rightarrow> kernel \<Rightarrow> outcome" where
  "randombytes_cell rnd w =
     (case new_array 8 w of
        (Inl e, w1) \<Rightarrow> (Inl e, w1)
      | (Inr b, w1) \<Rightarrow>
          (case sodium_randombytes rnd b 8 (w1\<lparr>bs := Some b\<rparr>) of
             (Inl e, w2) \<Rightarrow> (Inl e, w2)
           | (Inr b', w2) \<Rightarrow> (Inr (Some (bytes_hex (cells b'))), w2\<lparr>bs := Some b'\<rparr>)))"

text \<open>\<^verbatim>\<open>bytes(data)\<close>, the contents of the buffer as a test reads them back.\<close>

definition bytes_data :: "kernel \<Rightarrow> byte list option" where
  "bytes_data w = map_option cells (data w)"

subsection \<open>Running cells\<close>

text \<open>
  A notebook runs its cells in whatever order the user picks. A run executes a list of
  cells and stops at the first that raises; it returns what the cells displayed.
\<close>

datatype cell = Allocate | Load | Address | Clear | Random "nat \<Rightarrow> byte"

fun exec :: "nat \<Rightarrow> cell \<Rightarrow> kernel \<Rightarrow> outcome" where
  "exec n Allocate w = allocate_cell n w"
| "exec n Load w = load_cell n w"
| "exec n Address w = address_cell w"
| "exec n Clear w = clear_cell n w"
| "exec n (Random rnd) w = randombytes_cell rnd w"

fun run :: "nat \<Rightarrow> cell list \<Rightarrow> kernel \<Rightarrow> (error + string option list) \<times> kernel" where
  "run n [] w = (Inr [], w)"
| "run n (c # cs) w =
     (case exec n c w of
        (Inl e, w1) \<Rightarrow> (Inl e, w1)
      | (Inr out, w1) \<Rightarrow>
          (case run n cs w1 of
             (Inl e, w2) \<Rightarrow> (Inl e, w2)
           | (Inr outs, w2) \<Rightarrow> (Inr (out # outs), w2)))"

text \<open>
  The notebook top to bottom: the file is written, \<^verbatim>\<open>file\<close> and \<^verbatim>\<open>mode\<close> are bound,
  then the buffer is allocated, loaded, located and cleared, and the second buffer filled.
\<close>

definition notebook :: "byte list \<Rightarrow> (nat \<Rightarrow> byte) \<Rightarrow> kernel \<Rightarrow> (error + string option list) \<times> kernel" where
  "notebook tok rnd w = run 32 [Allocate, Load, Address, Clear, Random rnd] (bind_cell (write_cell tok w))"

text \<open>
  A kernel in which nothing has run: no stream is open, no call was made, no variable is
  bound. The file system and the environment's answers are its parameters.
\<close>

definition fresh :: "(string \<rightharpoonup> byte list) \<Rightarrow> (nat \<Rightarrow> addr) \<Rightarrow> int \<Rightarrow> kernel" where
  "fresh fs alloc rc =
     \<lparr>files = fs, streams = Map.empty, opened = 0, allocator = alloc, n_allocs = 0,
      fclose_rc = rc, calls = [], file_var = None, mode_var = None,
      data = None, fp = None, bs = None\<rparr>"

subsection \<open>Example kernels\<close>

text \<open>
  A kernel in which the file has been written and \<^verbatim>\<open>file\<close> and \<^verbatim>\<open>mode\<close> bound, with
  an allocator that hands out 4096, 4160, ...; and the same kernel after the allocating
  cell.
\<close>

definition example_kernel :: "byte list \<Rightarrow> int \<Rightarrow> kernel" where
  "example_kernel tok rc = bind_cell (write_cell tok (fresh Map.empty (\<lambda>k. 4096 + 64 * k) rc))"

definition allocated_kernel :: "nat \<Rightarrow> byte list \<Rightarrow> int \<Rightarrow> kernel" where
  "allocated_kernel n tok rc = snd (allocate_cell n (example_kernel tok rc))"

subsection \<open>An invariant of runs\<close>

text \<open>
  The invariant under which every cell succeeds: \<^verbatim>\<open>file\<close> and \<^verbatim>\<open>mode\<close> hold their
  \<^verbatim>\<open>c_char_p\<close> values, \<^verbatim>\<open>data\<close> is bound to a buffer of \<open>n\<close> bytes with \<open>n\<close> below
  \<open>2^63\<close>, the file exists, and the allocator does not fail.
\<close>

definition ready :: "nat \<Rightarrow> kernel \<Rightarrow> bool" where
  "ready n w \<longleftrightarrow>
     file_var w = Some (CharP file_p) \<and> mode_var w = Some mode_p \<and> n < 2 ^ 63 \<and>
     (case data w of None \<Rightarrow> False | Some d \<Rightarrow> length (cells d) = n) \<and>
     files w file_p \<noteq> None \<and> (\<forall>k. allocator w k \<noteq> 0)"

section \<open>What each cell does\<close>

text \<open>
  The cells in closed form: the outcome and the kernel each one leaves, by the state it
  starts from.
\<close>

lemma fopen_present:
  assumes "files w file_p = Some content"
  shows "libc_fopen file_p mode_p w =
     (Suc (opened w),
      w\<lparr>calls := calls w @ [Fopen file_p mode_p],
        streams := (streams w)(Suc (opened w) \<mapsto> content),
        opened := Suc (opened w)\<rparr>)"
  using assms by (simp add: libc_fopen_def mode_p_def Let_def)

lemma fopen_missing:
  assumes "files w file_p = None"
  shows "libc_fopen file_p mode_p w = (0, w\<lparr>calls := calls w @ [Fopen file_p mode_p]\<rparr>)"
  using assms by (simp add: libc_fopen_def mode_p_def Let_def)

lemma load_cell_file_object:
  assumes "file_var w = Some FileObject" and "mode_var w = Some m"
  shows "load_cell n w = (Inl ArgumentError, w)"
  using assms by (simp add: load_cell_def)

lemma load_cell_unbound:
  assumes "data w = None" and "file_var w = Some (CharP file_p)" and "mode_var w = Some mode_p"
  shows "load_cell n w =
     (Inl (NameError ''data''),
      (snd (libc_fopen file_p mode_p w))\<lparr>fp := Some (fst (libc_fopen file_p mode_p w))\<rparr>)"
  using assms
  by (auto simp: load_cell_def libc_fopen_def mode_p_def Let_def split: option.splits prod.splits)

lemma load_cell_present:
  assumes "data w = Some d" and "length (cells d) = n" and "files w file_p = Some content"
    and "file_var w = Some (CharP file_p)" and "mode_var w = Some mode_p"
  shows "load_cell n w =
     (Inr (Some (bytes_hex (take n content @ drop (length content) (cells d)))),
      w\<lparr>calls := calls w @ [Fopen file_p mode_p, Fread (base d) n 1 (Suc (opened w)),
                              Fclose (Suc (opened w))],
        streams := (streams w)(Suc (opened w) := None),
        opened := Suc (opened w),
        fp := Some (Suc (opened w)),
        data := Some (d\<lparr>cells := take n content @ drop (length content) (cells d)\<rparr>)\<rparr>)"
  using assms
  by (simp add: load_cell_def fopen_present libc_fread_def libc_fclose_def Let_def min_def)

lemma load_cell_missing:
  assumes "data w = Some d" and "files w file_p = None"
    and "file_var w = Some (CharP file_p)" and "mode_var w = Some mode_p"
  shows "load_cell n w =
     (Inl NativeFault,
      w\<lparr>calls := calls w @ [Fopen file_p mode_p, Fread (base d) n 1 0], fp := Some 0\<rparr>)"
  using assms
  by (simp add: load_cell_def fopen_missing libc_fread_def Let_def)

lemma clear_cell_bound:
  assumes "data w = Some d" and "length (cells d) = n"
  shows "clear_cell n w =
     (Inr (Some (bytes_hex (replicate n 0))),
      w\<lparr>calls := calls w @ [Memset (base d) 0 n], data := Some (d\<lparr>cells := replicate n 0\<rparr>)\<rparr>)"
  using assms by (simp add: clear_cell_def libc_memset_def Let_def)

lemma allocate_cell_eq:
  "allocate_cell n w =
     (if 2 ^ 63 \<le> n then (Inl OverflowError, w)
      else if allocator w (n_allocs w) = 0 then (Inl MemoryError, w\<lparr>n_allocs := Suc (n_allocs w)\<rparr>)
      else (Inr None, w\<lparr>n_allocs := Suc (n_allocs w),
                         data := Some \<lparr>base = allocator w (n_allocs w), cells = replicate n 0\<rparr>\<rparr>))"
  by (simp add: allocate_cell_def create_string_buffer_def new_array_def Let_def)

lemma randombytes_cell_eq:
  "randombytes_cell rnd w =
     (if allocator w (n_allocs w) = 0 then (Inl MemoryError, w\<lparr>n_allocs := Suc (n_allocs w)\<rparr>)
      else (Inr (Some (bytes_hex (map rnd [0..<8]))),
            w\<lparr>n_allocs := Suc (n_allocs w),
              calls := calls w @ [Randombytes (allocator w (n_allocs w)) 8],
              bs := Some \<lparr>base = allocator w (n_allocs w), cells = map rnd [0..<8]\<rparr>\<rparr>))"
  by (simp add: randombytes_cell_def new_array_def sodium_randombytes_def Let_def)

subsection \<open>Sequences of cells\<close>

text \<open>Only the allocating cell binds \<^verbatim>\<open>data\<close>; no other cell moves the buffer.\<close>

lemma fopen_data: "data (snd (libc_fopen p m w)) = data w"
  by (simp add: libc_fopen_def Let_def split: list.splits option.splits)

lemma fread_data: "data (snd (libc_fread d sz k h w)) = data w"
  by (simp add: libc_fread_def Let_def split: option.splits)

lemma fread_base: "libc_fread d sz k h w = (Inr (d', c), w') \<Longrightarrow> base d' = base d"
  by (auto simp: libc_fread_def Let_def split: option.splits if_splits)

lemma fclose_data: "data (snd (libc_fclose h w)) = data w"
  by (simp add: libc_fclose_def Let_def split: option.splits)

lemma load_keeps_base:
  "map_option base (data (snd (load_cell n w))) = map_option base (data w)"
proof (cases "file_var w")
  case None
  then show ?thesis by (simp add: load_cell_def)
next
  case (Some f)
  note f = this
  show ?thesis
  proof (cases "mode_var w")
    case None
    with f show ?thesis by (simp add: load_cell_def)
  next
    case (Some m)
    note m = this
    show ?thesis
    proof (cases f)
      case FileObject
      with f m show ?thesis by (simp add: load_cell_def)
    next
      case (CharP path)
      obtain h w1 where o: "libc_fopen path m w = (h, w1)" by (cases "libc_fopen path m w")
      have d1: "data w1 = data w" using fopen_data [of path m w] o by simp
      show ?thesis
      proof (cases "data w")
        case None
        with f m CharP o d1 show ?thesis by (simp add: load_cell_def)
      next
        case (Some d)
        obtain r w3 where rd: "libc_fread d n 1 h (w1\<lparr>fp := Some h\<rparr>) = (r, w3)"
          by (cases "libc_fread d n 1 h (w1\<lparr>fp := Some h\<rparr>)")
        have d3: "data w3 = data w"
          using fread_data [of d n 1 h "w1\<lparr>fp := Some h\<rparr>"] rd d1 by simp
        show ?thesis
        proof (cases r)
          case (Inl e)
          with f m CharP o d1 Some rd d3 show ?thesis by (simp add: load_cell_def)
        next
          case (Inr p)
          obtain d' c where p: "p = (d', c)" by (cases p)
          have b: "base d' = base d" using fread_base rd Inr p by blast
          obtain r5 w5 where cl: "libc_fclose h (w3\<lparr>data := Some d'\<rparr>) = (r5, w5)"
            by (cases "libc_fclose h (w3\<lparr>data := Some d'\<rparr>)")
          have d5: "data w5 = Some d'"
            using fclose_data [of h "w3\<lparr>data := Some d'\<rparr>"] cl by simp
          from f m CharP o d1 Some rd Inr p cl d5 b show ?thesis
            by (cases r5) (simp_all add: load_cell_def)
        qed
      qed
    qed
  qed
qed

lemma exec_keeps_base:
  assumes "c \<noteq> Allocate"
  shows "map_option base (data (snd (exec n c w))) = map_option base (data w)"
proof (cases c)
  case Load
  show ?thesis
    unfolding Load exec.simps by (rule load_keeps_base)
next
  case Clear
  show ?thesis
    unfolding Clear exec.simps
    by (auto simp: clear_cell_def libc_memset_def Let_def split: option.splits)
next
  case (Random rnd)
  show ?thesis
    unfolding Random exec.simps by (simp add: randombytes_cell_eq)
next
  case Address
  show ?thesis
    unfolding Address exec.simps by (simp add: address_cell_def split: option.splits)
next
  case Allocate
  with assms show ?thesis by simp
qed

lemma run_keeps_base:
  assumes "Allocate \<notin> set cs"
  shows "map_option base (data (snd (run n cs w))) = map_option base (data w)"
  using assms
proof (induction cs arbitrary: w)
  case Nil
  show ?case by simp
next
  case (Cons c cs)
  have c: "c \<noteq> Allocate" and cs: "Allocate \<notin> set cs" using Cons.prems by auto
  obtain r w1 where e: "exec n c w = (r, w1)" by (cases "exec n c w")
  have b1: "map_option base (data w1) = map_option base (data w)"
    using exec_keeps_base [OF c, of n w] e by simp
  show ?case
  proof (cases r)
    case (Inl err)
    with e b1 show ?thesis by simp
  next
    case (Inr out)
    obtain r2 w2 where r2: "run n cs w1 = (r2, w2)" by (cases "run n cs w1")
    have "map_option base (data w2) = map_option base (data w1)"
      using Cons.IH [OF cs, of w1] r2 by simp
    with e Inr r2 b1 show ?thesis by (cases r2) simp_all
  qed
qed

lemma exec_ready:
  assumes "ready n w"
  shows "\<exists>out w'. exec n c w = (Inr out, w') \<and> ready n w'"
proof -
  from assms obtain d content where d: "data w = Some d" "length (cells d) = n"
    and f: "files w file_p = Some content" and a: "\<And>k. allocator w k \<noteq> 0"
    and v: "file_var w = Some (CharP file_p)" "mode_var w = Some mode_p" and n: "n < 2 ^ 63"
    by (auto simp: ready_def split: option.splits)
  show ?thesis
  proof (cases c)
    case Allocate
    show ?thesis unfolding Allocate exec.simps using a f v n
      by (simp add: allocate_cell_eq ready_def)
  next
    case Load
    show ?thesis unfolding Load exec.simps using a f d v n
      by (simp add: load_cell_present [OF d f v] ready_def)
  next
    case Address
    show ?thesis unfolding Address exec.simps using assms d
      by (simp add: address_cell_def)
  next
    case Clear
    show ?thesis unfolding Clear exec.simps using a f d v n
      by (simp add: clear_cell_bound [OF d] ready_def)
  next
    case (Random rnd)
    show ?thesis unfolding Random exec.simps using a f d v n
      by (simp add: randombytes_cell_eq ready_def)
  qed
qed

lemma run_ready:
  assumes "ready n w"
  shows "\<exists>outs w'. run n cs w = (Inr outs, w') \<and> length outs = length cs \<and> ready n w'"
  using assms
proof (induction cs arbitrary: w)
  case Nil
  then show ?case by simp
next
  case (Cons c cs)
  from exec_ready [OF Cons.prems, of c]
  obtain out w1 where e: "exec n c w = (Inr out, w1)" and r1: "ready n w1" by blast
  from Cons.IH [OF r1]
  obtain outs w2 where r: "run n cs w1 = (Inr outs, w2)" "length outs = length cs" "ready n w2"
    by blast
  with e show ?case by simp
qed

subsection \<open>The notebook as written\<close>

text \<open>
  Run top to bottom with the size 32 it is written with, the notebook displays the bytes of
  the file, the address of the buffer, 32 zero bytes and the eight random bytes, and makes
  five foreign calls.
\<close>

lemma prepared:
  "files (bind_cell (write_cell tok w)) = (files w)(''data.txt'' \<mapsto> tok)"
  "file_var (bind_cell (write_cell tok w)) = Some (CharP file_p)"
  "mode_var (bind_cell (write_cell tok w)) = Some mode_p"
  "data (bind_cell (write_cell tok w)) = data w"
  "allocator (bind_cell (write_cell tok w)) = allocator w"
  "n_allocs (bind_cell (write_cell tok w)) = n_allocs w"
  "calls (bind_cell (write_cell tok w)) = calls w"
  "opened (bind_cell (write_cell tok w)) = opened w"
  "streams (bind_cell (write_cell tok w)) = streams w"
  by (simp_all add: bind_cell_def write_cell_def)

lemma notebook_run:
  assumes "length tok = 32" and "allocator w (n_allocs w) \<noteq> 0"
    and "allocator w (Suc (n_allocs w)) \<noteq> 0"
  shows "fst (notebook tok rnd w) =
     Inr [None, Some (bytes_hex tok), Some (py_hex (allocator w (n_allocs w))),
          Some (bytes_hex (replicate 32 0)), Some (bytes_hex (map rnd [0..<8]))]"
    and "calls (snd (notebook tok rnd w)) =
     calls w @ [Fopen ''data.txt'' ''rb'', Fread (allocator w (n_allocs w)) 32 1 (Suc (opened w)),
                Fclose (Suc (opened w)), Memset (allocator w (n_allocs w)) 0 32,
                Randombytes (allocator w (Suc (n_allocs w))) 8]"
  using assms
  by (simp_all add: notebook_def allocate_cell_eq prepared
        load_cell_present [where content = tok] address_cell_def
        clear_cell_bound [where n = 32] randombytes_cell_eq file_p_def mode_p_def)

text \<open>
  The order matters: straight after the writing cell \<^verbatim>\<open>file\<close> is a file object, and the
  loading cell raises before any foreign call.
\<close>

lemma write_then_load:
  assumes "mode_var w = Some m"
  shows "load_cell n (write_cell tok w) = (Inl ArgumentError, write_cell tok w)"
  using assms by (simp add: load_cell_file_object write_cell_def)

subsection \<open>Evaluating the examples\<close>

lemma replicate_num: "replicate (numeral k) x = x # replicate (numeral k - 1) x"
  by (simp add: numeral_eq_Suc)

lemma example_kernel_eq:
  "example_kernel tok rc =
     \<lparr>files = [''data.txt'' \<mapsto> tok], streams = Map.empty, opened = 0,
      allocator = (\<lambda>k. 4096 + 64 * k), n_allocs = 0, fclose_rc = rc, calls = [],
      file_var = Some (CharP file_p), mode_var = Some mode_p,
      data = None, fp = None, bs = None\<rparr>"
  by (simp add: example_kernel_def bind_cell_def write_cell_def fresh_def)

lemma allocated_kernel_eq:
  assumes "n < 2 ^ 63"
  shows "allocated_kernel n tok rc =
     \<lparr>files = [''data.txt'' \<mapsto> tok], streams = Map.empty, opened = 0,
      allocator = (\<lambda>k. 4096 + 64 * k), n_allocs = 1, fclose_rc = rc, calls = [],
      file_var = Some (CharP file_p), mode_var = Some mode_p,
      data = Some \<lparr>base = 4096, cells = replicate n 0\<rparr>, fp = None, bs = None\<rparr>"
  using assms by (simp add: allocated_kernel_def example_kernel_eq allocate_cell_eq)

section \<open>The specification's claims\<close>

text \<open>
  The specification names the operations of a buffer: \<open>allocate\<close> is the allocating cell,
  \<open>loadFromFile\<close> the loading cell, \<open>address\<close> the cell that prints the address,
  \<open>clear\<close> the \<^verbatim>\<open>memset\<close> cell, and \<open>peek(0, K)\<close> on a buffer of \<open>K\<close> bytes is
  \<^verbatim>\<open>bytes(data)\<close>.
\<close>

text \<open>
  C1. Round trip, in the notebook's order: whatever \<open>n\<close> bytes the writing cell puts in
  the file, once \<^verbatim>\<open>file\<close> and \<^verbatim>\<open>mode\<close> are bound, allocating \<open>n\<close> bytes and loading
  leaves exactly those bytes, in order, in the region the allocator returned; the loading
  cell displays them, and it got them through one open, one read and one close.
\<close>

theorem roundtrip:
  assumes "length tok = n" and "n < 2 ^ 63" and "allocator w (n_allocs w) \<noteq> 0"
  shows "\<exists>w'. run n [Allocate, Load] (bind_cell (write_cell tok w))
                = (Inr [None, Some (bytes_hex tok)], w')
           \<and> bytes_data w' = Some tok
           \<and> data w' = Some \<lparr>base = allocator w (n_allocs w), cells = tok\<rparr>
           \<and> calls w' = calls w @ [Fopen file_p mode_p,
                                    Fread (allocator w (n_allocs w)) n 1 (Suc (opened w)),
                                    Fclose (Suc (opened w))]"
  using assms
  by (simp add: allocate_cell_eq prepared load_cell_present [where content = tok]
        file_p_def bytes_data_def)

theorem roundtrip_witness:
  "\<exists>w'. run 32 [Allocate, Load]
           (bind_cell (write_cell (map of_nat [0..<32]) (fresh Map.empty (\<lambda>k. 4096 + 64 * k) 0)))
         = (Inr [None, Some (bytes_hex (map of_nat [0..<32]))], w')
       \<and> bytes_data w' = Some (map of_nat [0..<32])
       \<and> data w' = Some \<lparr>base = 4096, cells = map of_nat [0..<32]\<rparr>
       \<and> calls w' = [Fopen file_p mode_p, Fread 4096 32 1 1, Fclose 1]"
  using roundtrip [of "map of_nat [0..<32]" 32 "fresh Map.empty (\<lambda>k. 4096 + 64 * k) 0"]
  by (simp add: fresh_def)

text \<open>
  C2, as stated, fails: the notebook reads one element of 32 bytes,
  \<^verbatim>\<open>fread(data, 32, 1, fp)\<close>, not 32 elements of one byte.
\<close>

theorem load_calls_counterexample:
  "calls (snd (run 32 [Allocate, Load] (example_kernel (replicate 32 7) 0)))
     = [Fopen ''data.txt'' ''rb'', Fread 4096 32 1 1, Fclose 1]
   \<and> calls (snd (run 32 [Allocate, Load] (example_kernel (replicate 32 7) 0)))
     \<noteq> [Fopen ''data.txt'' ''rb'', Fread 4096 1 32 1, Fclose 1]"
  by (simp add: allocate_cell_eq example_kernel_eq
        load_cell_present [where content = "replicate 32 7"] file_p_def mode_p_def)

text \<open>
  C2, amended. With the buffer allocated, \<^verbatim>\<open>file\<close> and \<^verbatim>\<open>mode\<close> bound and the file
  there to open, the loading cell makes exactly three foreign calls, in this order: open
  with the path and the mode; read with the buffer's address, element size \<open>n\<close>, count 1
  and the handle open returned; close with that handle.
\<close>

theorem load_calls:
  assumes "data w = Some d" and "length (cells d) = n" and "files w file_p = Some content"
    and "file_var w = Some (CharP file_p)" and "mode_var w = Some mode_p"
  shows "\<exists>out w'. load_cell n w = (Inr out, w') \<and> fst (libc_fopen file_p mode_p w) \<noteq> 0
           \<and> calls w' = calls w @ [Fopen file_p mode_p,
                                    Fread (base d) n 1 (fst (libc_fopen file_p mode_p w)),
                                    Fclose (fst (libc_fopen file_p mode_p w))]"
  using assms by (simp add: load_cell_present fopen_present)

theorem load_calls_witness:
  "\<exists>out w'. load_cell 4 (allocated_kernel 4 [1, 2, 3, 4] 0) = (Inr out, w')
      \<and> fst (libc_fopen file_p mode_p (allocated_kernel 4 [1, 2, 3, 4] 0)) \<noteq> 0
      \<and> calls w' = [Fopen file_p mode_p,
                     Fread 4096 4 1 (fst (libc_fopen file_p mode_p (allocated_kernel 4 [1, 2, 3, 4] 0))),
                     Fclose (fst (libc_fopen file_p mode_p (allocated_kernel 4 [1, 2, 3, 4] 0)))]"
  using load_calls [of "allocated_kernel 4 [1, 2, 3, 4] 0" "\<lparr>base = 4096, cells = replicate 4 0\<rparr>"
      4 "[1, 2, 3, 4]"]
  by (simp add: allocated_kernel_eq file_p_def)

text \<open>
  C3, as stated, fails: with a file of two bytes and a buffer of four, the loading cell
  raises nothing and displays the buffer.
\<close>

theorem short_read_counterexample:
  "fst (run 4 [Allocate, Load] (example_kernel [1, 2] 0)) = Inr [None, Some ''01020000'']
   \<and> length [1, 2 :: byte] < 4"
  by (simp add: example_kernel_eq allocate_cell_eq
        load_cell_present [where content = "[1, 2]"] file_p_def
        bytes_hex_def hex_byte_def hex_digit_def replicate_num)

text \<open>
  C3, amended. When the file is shorter than \<open>n\<close>, loading a freshly allocated buffer
  completes without an error: the read returns 0 complete elements, a result the cell
  drops; the buffer then holds the file's bytes followed by zeros, its unread tail
  unchanged.
\<close>

theorem short_read:
  assumes "files w file_p = Some content" and "length content < n"
    and "data w = Some d" and "cells d = replicate n 0"
    and "file_var w = Some (CharP file_p)" and "mode_var w = Some mode_p"
  shows "\<exists>w' d'. load_cell n w = (Inr (Some (bytes_hex (content @ replicate (n - length content) 0))), w')
           \<and> bytes_data w' = Some (content @ replicate (n - length content) 0)
           \<and> fst (libc_fread d n 1 (fst (libc_fopen file_p mode_p w))
                    ((snd (libc_fopen file_p mode_p w))\<lparr>fp := Some (fst (libc_fopen file_p mode_p w))\<rparr>))
               = Inr (d', 0)"
  using assms
  by (simp add: load_cell_present [where d = d and content = content] bytes_data_def
        fopen_present libc_fread_def Let_def)

theorem short_read_witness:
  "\<exists>w' d'. load_cell 4 (allocated_kernel 4 [1, 2] 0) = (Inr (Some (bytes_hex [1, 2, 0, 0])), w')
      \<and> bytes_data w' = Some [1, 2, 0, 0]
      \<and> fst (libc_fread \<lparr>base = 4096, cells = replicate 4 0\<rparr> 4 1
               (fst (libc_fopen file_p mode_p (allocated_kernel 4 [1, 2] 0)))
               ((snd (libc_fopen file_p mode_p (allocated_kernel 4 [1, 2] 0)))
                  \<lparr>fp := Some (fst (libc_fopen file_p mode_p (allocated_kernel 4 [1, 2] 0)))\<rparr>))
          = Inr (d', 0)"
  using short_read [of "allocated_kernel 4 [1, 2] 0" "[1, 2]" 4 "\<lparr>base = 4096, cells = replicate 4 0\<rparr>"]
  by (simp add: allocated_kernel_eq file_p_def replicate_num)




text \<open>
  C5, as stated, fails: the notebook's random fill goes to a second buffer, \<^verbatim>\<open>bs\<close>, of
  eight bytes. After it, \<^verbatim>\<open>data\<close> still holds the bytes loaded from the file.
\<close>

theorem clear_policies_counterexample:
  "bytes_data (snd (run 4 [Allocate, Load, Random (\<lambda>i. 9)] (example_kernel [1, 2, 3, 4] 0)))
     = Some [1, 2, 3, 4]
   \<and> fst (run 4 [Allocate, Load, Random (\<lambda>i. 9)] (example_kernel [1, 2, 3, 4] 0))
     = Inr [None, Some ''01020304'', Some ''0909090909090909'']"
  by (simp add: example_kernel_eq allocate_cell_eq randombytes_cell_eq
        load_cell_present [where content = "[1, 2, 3, 4]"] file_p_def bytes_data_def
        bytes_hex_def hex_byte_def hex_digit_def upt_rec)

text \<open>
  C5, amended. The notebook has one way to scrub the loaded region, the zero fill: with
  \<^verbatim>\<open>data\<close> bound to \<open>n\<close> bytes, the clearing cell calls \<^verbatim>\<open>memset\<close> once and leaves
  \<open>n\<close> zero bytes, which it displays. The random fill is not a policy of that cell: it
  allocates the separate buffer \<^verbatim>\<open>bs\<close>, fills its eight bytes from the generator, and
  leaves the contents of \<^verbatim>\<open>data\<close> as they were, whatever the generator delivers.
\<close>

theorem clear_policies:
  assumes "data w = Some d" and "length (cells d) = n"
  shows "(\<exists>w'. clear_cell n w = (Inr (Some (bytes_hex (replicate n 0))), w')
              \<and> bytes_data w' = Some (replicate n 0)
              \<and> calls w' = calls w @ [Memset (base d) 0 n])
       \<and> bytes_data (snd (randombytes_cell rnd w)) = bytes_data w
       \<and> (if allocator w (n_allocs w) = 0 then fst (randombytes_cell rnd w) = Inl MemoryError
          else fst (randombytes_cell rnd w) = Inr (Some (bytes_hex (map rnd [0..<8])))
             \<and> map_option cells (bs (snd (randombytes_cell rnd w))) = Some (map rnd [0..<8])
             \<and> calls (snd (randombytes_cell rnd w))
                  = calls w @ [Randombytes (allocator w (n_allocs w)) 8])"
  using assms by (simp add: clear_cell_bound randombytes_cell_eq bytes_data_def)

theorem clear_policies_witness:
  "(\<exists>w'. clear_cell 4 (snd (load_cell 4 (allocated_kernel 4 [1, 2, 3, 4] 0)))
            = (Inr (Some (bytes_hex (replicate 4 0))), w')
         \<and> bytes_data w' = Some (replicate 4 0)
         \<and> calls w' = calls (snd (load_cell 4 (allocated_kernel 4 [1, 2, 3, 4] 0))) @ [Memset 4096 0 4])
   \<and> bytes_data (snd (load_cell 4 (allocated_kernel 4 [1, 2, 3, 4] 0))) = Some [1, 2, 3, 4]
   \<and> bytes_data (snd (randombytes_cell (\<lambda>i. 9) (snd (load_cell 4 (allocated_kernel 4 [1, 2, 3, 4] 0)))))
       = Some [1, 2, 3, 4]"
  using clear_policies [of "snd (load_cell 4 (allocated_kernel 4 [1, 2, 3, 4] 0))"
      "\<lparr>base = 4096, cells = [1, 2, 3, 4]\<rparr>" 4 "\<lambda>i. 9"]
  by (simp add: allocated_kernel_eq load_cell_present [where content = "[1, 2, 3, 4]"
        and d = "\<lparr>base = 4096, cells = replicate 4 0\<rparr>"] file_p_def bytes_data_def)

text \<open>
  C6, as stated, fails: when the file is missing, \<^verbatim>\<open>fopen\<close> returns null and the cell
  goes on to call \<^verbatim>\<open>fread\<close> with the null handle.
\<close>

theorem load_errors_counterexample:
  "run 4 [Allocate, Load] (bind_cell (fresh Map.empty (\<lambda>k. 4096 + 64 * k) 0))
     = (Inl NativeFault,
        snd (run 4 [Allocate, Load] (bind_cell (fresh Map.empty (\<lambda>k. 4096 + 64 * k) 0))))
   \<and> calls (snd (run 4 [Allocate, Load] (bind_cell (fresh Map.empty (\<lambda>k. 4096 + 64 * k) 0))))
     = [Fopen ''data.txt'' ''rb'', Fread 4096 4 1 0]"
  by (simp add: fresh_def bind_cell_def allocate_cell_eq load_cell_missing file_p_def mode_p_def)

text \<open>
  C6, amended. The loading cell reports neither an open error nor a close error. When the
  open returns null it still calls the read, with the null handle, which is a fault inside
  the C library; the close is never reached and the buffer is untouched. When the read
  completed fully and the close reports failure, the status is dropped: the cell completes
  normally and the bytes read remain in the buffer.
\<close>

theorem load_errors:
  assumes "data w = Some d" and "length (cells d) = n"
    and "file_var w = Some (CharP file_p)" and "mode_var w = Some mode_p"
  shows "(files w file_p = None \<longrightarrow>
            fst (libc_fopen file_p mode_p w) = 0
          \<and> fst (load_cell n w) = Inl NativeFault
          \<and> calls (snd (load_cell n w)) = calls w @ [Fopen file_p mode_p, Fread (base d) n 1 0]
          \<and> data (snd (load_cell n w)) = data w)
       \<and> (\<forall>content. files w file_p = Some content \<and> n \<le> length content \<and> fclose_rc w \<noteq> 0 \<longrightarrow>
            fst (load_cell n w) = Inr (Some (bytes_hex (take n content)))
          \<and> bytes_data (snd (load_cell n w)) = Some (take n content))"
  using assms
  by (auto simp: load_cell_missing fopen_missing load_cell_present bytes_data_def)

theorem load_errors_witness:
  "files (allocated_kernel 4 [1, 2, 3, 4] (- 1)) file_p = Some [1, 2, 3, 4]
   \<and> fclose_rc (allocated_kernel 4 [1, 2, 3, 4] (- 1)) \<noteq> 0
   \<and> fst (load_cell 4 (allocated_kernel 4 [1, 2, 3, 4] (- 1))) = Inr (Some (bytes_hex [1, 2, 3, 4]))
   \<and> bytes_data (snd (load_cell 4 (allocated_kernel 4 [1, 2, 3, 4] (- 1)))) = Some [1, 2, 3, 4]
   \<and> files (snd (allocate_cell 4 (bind_cell (fresh Map.empty (\<lambda>k. 4096) 0)))) file_p = None
   \<and> fst (load_cell 4 (snd (allocate_cell 4 (bind_cell (fresh Map.empty (\<lambda>k. 4096) 0))))) = Inl NativeFault
   \<and> calls (snd (load_cell 4 (snd (allocate_cell 4 (bind_cell (fresh Map.empty (\<lambda>k. 4096) 0))))))
       = [Fopen file_p mode_p, Fread 4096 4 1 0]"
  using load_errors [of "allocated_kernel 4 [1, 2, 3, 4] (- 1)" "\<lparr>base = 4096, cells = replicate 4 0\<rparr>" 4]
    load_errors [of "snd (allocate_cell 4 (bind_cell (fresh Map.empty (\<lambda>k. 4096) 0)))"
      "\<lparr>base = 4096, cells = replicate 4 0\<rparr>" 4]
  by (simp add: allocated_kernel_eq allocate_cell_eq fresh_def bind_cell_def file_p_def)

text \<open>
  C7, as stated, fails: run before the allocating cell, the loading cell has already called
  \<^verbatim>\<open>fopen\<close> when the unbound name \<^verbatim>\<open>data\<close> stops it, and the stream it opened stays
  open.
\<close>

theorem out_of_order_counterexample:
  "fst (load_cell 32 (example_kernel (replicate 32 7) 0)) = Inl (NameError ''data'')
   \<and> calls (example_kernel (replicate 32 7) 0) = []
   \<and> calls (snd (load_cell 32 (example_kernel (replicate 32 7) 0))) = [Fopen ''data.txt'' ''rb'']
   \<and> streams (example_kernel (replicate 32 7) 0) 1 = None
   \<and> streams (snd (load_cell 32 (example_kernel (replicate 32 7) 0))) 1 = Some (replicate 32 7)"
  by (simp add: load_cell_unbound example_kernel_eq libc_fopen_def file_p_def mode_p_def Let_def)

text \<open>
  C7, amended. Before the allocating cell has run, every cell that uses the buffer fails
  with \<^verbatim>\<open>NameError\<close>. The address and clearing cells then make no foreign call and
  leave the buffer, the file system, the open streams and the call log as they were (the
  import and the prototype assignment that run before the failing lookup are outside the
  kernel state). The loading cell, with \<^verbatim>\<open>file\<close> and \<^verbatim>\<open>mode\<close> bound, fails only after
  its open: it has made exactly that one foreign call and bound \<^verbatim>\<open>fp\<close> to its result.
  When the file exists the stream the call opened stays open; when it does not, no stream
  is opened. The file system and the unbound buffer are as they were.
\<close>

theorem out_of_order:
  assumes "data w = None" and "file_var w = Some (CharP file_p)" and "mode_var w = Some mode_p"
  shows "address_cell w = (Inl (NameError ''data''), w)
       \<and> clear_cell n w = (Inl (NameError ''data''), w)
       \<and> load_cell n w =
           (Inl (NameError ''data''),
            (case files w file_p of
               None \<Rightarrow> w\<lparr>calls := calls w @ [Fopen file_p mode_p], fp := Some 0\<rparr>
             | Some content \<Rightarrow>
                 w\<lparr>calls := calls w @ [Fopen file_p mode_p],
                   streams := (streams w)(Suc (opened w) \<mapsto> content),
                   opened := Suc (opened w),
                   fp := Some (Suc (opened w))\<rparr>))"
  using assms
  by (auto simp: address_cell_def clear_cell_def load_cell_unbound fopen_present fopen_missing
           split: option.splits)

theorem out_of_order_witness:
  "data (example_kernel [1, 2] 0) = None
   \<and> address_cell (example_kernel [1, 2] 0) = (Inl (NameError ''data''), example_kernel [1, 2] 0)
   \<and> clear_cell 2 (example_kernel [1, 2] 0) = (Inl (NameError ''data''), example_kernel [1, 2] 0)
   \<and> load_cell 2 (example_kernel [1, 2] 0) =
       (Inl (NameError ''data''),
        (example_kernel [1, 2] 0)\<lparr>calls := [Fopen file_p mode_p],
           streams := [1 \<mapsto> [1, 2]], opened := 1, fp := Some 1\<rparr>)
   \<and> data (bind_cell (fresh Map.empty (\<lambda>k. 4096) 0)) = None
   \<and> load_cell 2 (bind_cell (fresh Map.empty (\<lambda>k. 4096) 0)) =
       (Inl (NameError ''data''),
        (bind_cell (fresh Map.empty (\<lambda>k. 4096) 0))\<lparr>calls := [Fopen file_p mode_p], fp := Some 0\<rparr>)"
  using out_of_order [of "example_kernel [1, 2] 0" 2]
    out_of_order [of "bind_cell (fresh Map.empty (\<lambda>k. 4096) 0)" 2]
  by (simp add: example_kernel_eq bind_cell_def fresh_def file_p_def)

text \<open>
  C8. For \<open>n > 0\<close>, once the allocating cell has succeeded the address cell displays
  a non-null address, changes nothing, and displays the same address after any further
  cells short of allocating again.
\<close>

theorem address_stable:
  assumes "0 < n" and "allocate_cell n w = (Inr out, w1)" and "Allocate \<notin> set cs"
  shows "\<exists>a. a \<noteq> 0
           \<and> address_cell w1 = (Inr (Some (py_hex a)), w1)
           \<and> address_cell (snd (run n cs w1)) = (Inr (Some (py_hex a)), snd (run n cs w1))
           \<and> map_option base (data (snd (run n cs w1))) = Some a"
proof -
  from assms(2) have a: "allocator w (n_allocs w) \<noteq> 0"
    and b: "map_option base (data w1) = Some (allocator w (n_allocs w))"
    by (auto simp: allocate_cell_eq split: if_splits)
  from run_keeps_base [OF assms(3), of n w1] b
  have c: "map_option base (data (snd (run n cs w1))) = Some (allocator w (n_allocs w))"
    by simp
  from a b c show ?thesis
    by (auto simp: address_cell_def split: option.splits)
qed

theorem address_stable_witness:
  "(0::nat) < 4
   \<and> allocate_cell 4 (example_kernel [1, 2, 3, 4] 0) = (Inr None, allocated_kernel 4 [1, 2, 3, 4] 0)
   \<and> Allocate \<notin> set [Load, Address, Clear, Random (\<lambda>i. 9), Address]
   \<and> (\<exists>a. a \<noteq> 0
       \<and> address_cell (allocated_kernel 4 [1, 2, 3, 4] 0)
           = (Inr (Some (py_hex a)), allocated_kernel 4 [1, 2, 3, 4] 0)
       \<and> address_cell (snd (run 4 [Load, Address, Clear, Random (\<lambda>i. 9), Address]
                               (allocated_kernel 4 [1, 2, 3, 4] 0)))
           = (Inr (Some (py_hex a)),
              snd (run 4 [Load, Address, Clear, Random (\<lambda>i. 9), Address]
                     (allocated_kernel 4 [1, 2, 3, 4] 0)))
       \<and> map_option base (data (snd (run 4 [Load, Address, Clear, Random (\<lambda>i. 9), Address]
                               (allocated_kernel 4 [1, 2, 3, 4] 0)))) = Some a)"
proof -
  have h: "allocate_cell 4 (example_kernel [1, 2, 3, 4] 0) = (Inr None, allocated_kernel 4 [1, 2, 3, 4] 0)"
    by (simp add: allocated_kernel_def allocate_cell_eq example_kernel_eq)
  have c: "Allocate \<notin> set [Load, Address, Clear, Random (\<lambda>i. 9), Address]"
    by simp
  from address_stable [OF _ h c] h c show ?thesis by simp
qed

text \<open>
  C9, as stated, fails: after the clearing cell the loading cell runs again and refills
  the buffer, and the allocating cell runs again after that.
\<close>

theorem lifecycle_counterexample:
  "fst (run 4 [Allocate, Load, Clear, Load, Allocate] (example_kernel [1, 2, 3, 4] 0))
     = Inr [None, Some ''01020304'', Some ''00000000'', Some ''01020304'', None]
   \<and> bytes_data (snd (run 4 [Allocate, Load, Clear] (example_kernel [1, 2, 3, 4] 0)))
     = Some [0, 0, 0, 0]
   \<and> bytes_data (snd (run 4 [Allocate, Load, Clear, Load] (example_kernel [1, 2, 3, 4] 0)))
     = Some [1, 2, 3, 4]"
  by (simp add: example_kernel_eq allocate_cell_eq
        load_cell_present [where content = "[1, 2, 3, 4]"] clear_cell_bound [where n = 4]
        file_p_def bytes_data_def bytes_hex_def hex_byte_def hex_digit_def replicate_num)

text \<open>
  C9, amended. The notebook keeps no lifecycle state and enforces no order between its
  cells once the buffer exists: with \<^verbatim>\<open>file\<close> and \<^verbatim>\<open>mode\<close> bound, \<^verbatim>\<open>data\<close> bound to
  \<open>n\<close> bytes, the file present and an allocator that does not fail, every sequence of
  cells, in any order and with any repetition, runs to its end without an error.
\<close>

theorem no_lifecycle_order:
  assumes "data w = Some d" and "length (cells d) = n" and "files w file_p = Some content"
    and "\<forall>k. allocator w k \<noteq> 0"
    and "file_var w = Some (CharP file_p)" and "mode_var w = Some mode_p" and "n < 2 ^ 63"
  shows "\<exists>outs w'. run n cs w = (Inr outs, w') \<and> length outs = length cs"
proof -
  have "ready n w" using assms by (simp add: ready_def)
  from run_ready [OF this, of cs] show ?thesis by blast
qed

theorem no_lifecycle_order_witness:
  "\<exists>outs w'. run 4 [Clear, Load, Address, Load, Clear, Clear, Allocate, Random (\<lambda>i. 9), Load]
                 (allocated_kernel 4 [1, 2, 3, 4] 0) = (Inr outs, w')
      \<and> length outs
          = length [Clear, Load, Address, Load, Clear, Clear, Allocate, Random (\<lambda>i. 9), Load]"
proof -
  have d: "data (allocated_kernel 4 [1, 2, 3, 4] 0) = Some \<lparr>base = 4096, cells = replicate 4 0\<rparr>"
    and f: "files (allocated_kernel 4 [1, 2, 3, 4] 0) file_p = Some [1, 2, 3, 4]"
    and a: "\<forall>k. allocator (allocated_kernel 4 [1, 2, 3, 4] 0) k \<noteq> 0"
    and v: "file_var (allocated_kernel 4 [1, 2, 3, 4] 0) = Some (CharP file_p)"
      "mode_var (allocated_kernel 4 [1, 2, 3, 4] 0) = Some mode_p"
    by (simp_all add: allocated_kernel_eq file_p_def)
  have l: "length (cells \<lparr>base = 4096, cells = replicate 4 0\<rparr>) = 4"
    by simp
  have n: "(4::nat) < 2 ^ 63" by simp
  show ?thesis
    by (rule no_lifecycle_order [OF d l f a v n])
qed

text \<open>
  C10. Whatever two files hold, in two runs that write, bind, allocate \<open>n\<close> bytes and
  load, the clearing cell calls \<^verbatim>\<open>memset\<close> on the very region that holds the loaded
  bytes, leaves that region, at the same address, holding \<open>n\<close> zero bytes, changes
  nothing else, and displays the same text in both runs: the contents after the clear are
  the same whatever was loaded.
\<close>

theorem clear_reveals_nothing:
  assumes "n < 2 ^ 63" and "allocator w1 (n_allocs w1) \<noteq> 0" and "allocator w2 (n_allocs w2) \<noteq> 0"
  shows "\<exists>m1 m2.
           run n [Allocate, Load] (bind_cell (write_cell tok1 w1))
             = (Inr [None, Some (bytes_hex (take n tok1 @ replicate (n - length tok1) 0))], m1)
         \<and> data m1 = Some \<lparr>base = allocator w1 (n_allocs w1),
                            cells = take n tok1 @ replicate (n - length tok1) 0\<rparr>
         \<and> clear_cell n m1
             = (Inr (Some (bytes_hex (replicate n 0))),
                m1\<lparr>calls := calls m1 @ [Memset (allocator w1 (n_allocs w1)) 0 n],
                   data := Some \<lparr>base = allocator w1 (n_allocs w1), cells = replicate n 0\<rparr>\<rparr>)
         \<and> run n [Allocate, Load] (bind_cell (write_cell tok2 w2))
             = (Inr [None, Some (bytes_hex (take n tok2 @ replicate (n - length tok2) 0))], m2)
         \<and> data m2 = Some \<lparr>base = allocator w2 (n_allocs w2),
                            cells = take n tok2 @ replicate (n - length tok2) 0\<rparr>
         \<and> clear_cell n m2
             = (Inr (Some (bytes_hex (replicate n 0))),
                m2\<lparr>calls := calls m2 @ [Memset (allocator w2 (n_allocs w2)) 0 n],
                   data := Some \<lparr>base = allocator w2 (n_allocs w2), cells = replicate n 0\<rparr>\<rparr>)
         \<and> bytes_data (snd (clear_cell n m1)) = Some (replicate n 0)
         \<and> bytes_data (snd (clear_cell n m2)) = bytes_data (snd (clear_cell n m1))"
  using assms
  by (simp add: allocate_cell_eq prepared load_cell_present [where content = tok1]
        load_cell_present [where content = tok2] clear_cell_bound [where n = n]
        file_p_def bytes_data_def)

theorem clear_reveals_nothing_witness:
  "\<exists>m1 m2.
           run 4 [Allocate, Load] (bind_cell (write_cell [1, 2, 3, 4] (fresh Map.empty (\<lambda>k. 4096) 0)))
             = (Inr [None, Some (bytes_hex [1, 2, 3, 4])], m1)
         \<and> data m1 = Some \<lparr>base = 4096, cells = [1, 2, 3, 4]\<rparr>
         \<and> clear_cell 4 m1
             = (Inr (Some (bytes_hex [0, 0, 0, 0])),
                m1\<lparr>calls := calls m1 @ [Memset 4096 0 4],
                   data := Some \<lparr>base = 4096, cells = [0, 0, 0, 0]\<rparr>\<rparr>)
         \<and> run 4 [Allocate, Load] (bind_cell (write_cell [9, 8, 7, 6] (fresh Map.empty (\<lambda>k. 8192) 0)))
             = (Inr [None, Some (bytes_hex [9, 8, 7, 6])], m2)
         \<and> data m2 = Some \<lparr>base = 8192, cells = [9, 8, 7, 6]\<rparr>
         \<and> clear_cell 4 m2
             = (Inr (Some (bytes_hex [0, 0, 0, 0])),
                m2\<lparr>calls := calls m2 @ [Memset 8192 0 4],
                   data := Some \<lparr>base = 8192, cells = [0, 0, 0, 0]\<rparr>\<rparr>)
         \<and> bytes_data (snd (clear_cell 4 m1)) = Some [0, 0, 0, 0]
         \<and> bytes_data (snd (clear_cell 4 m2)) = bytes_data (snd (clear_cell 4 m1))"
  using clear_reveals_nothing [of 4 "fresh Map.empty (\<lambda>k. 4096) 0" "fresh Map.empty (\<lambda>k. 8192) 0"
      "[1, 2, 3, 4]" "[9, 8, 7, 6]"]
  by (simp add: fresh_def replicate_num)

end
